theory Spec2Isabelle
  imports Complex_Main
begin

section \<open>Endpoint resolver (src/lib/apiConfig.ts)\<close>

text \<open>
  \<^verbatim>\<open>export const API_BASE = import.meta.env.VITE_API_URL || 'http://localhost:5000';\<close>
  \<^verbatim>\<open>export const WS_URL = API_BASE.replace(/^https?:\/\//,\<close>
  \<^verbatim>\<open>    API_BASE.startsWith('https://') ? 'wss://' : 'ws://');\<close>

  The environment variable is a string or undefined (\<open>None\<close>); the empty string is
  falsy, so \<open>||\<close> replaces it by the default as well.
\<close>

definition API_BASE :: "string option \<Rightarrow> string" where
  "API_BASE VITE_API_URL =
     (case VITE_API_URL of
        None \<Rightarrow> ''http://localhost:5000''
      | Some s \<Rightarrow> if s = [] then ''http://localhost:5000'' else s)"

text \<open>\<open>s.startsWith(p)\<close>: the first \<open>length p\<close> characters of \<open>s\<close> are \<open>p\<close>.\<close>

definition startsWith :: "string \<Rightarrow> string \<Rightarrow> bool" where
  "startsWith s p = (take (length p) s = p)"

text \<open>
  The regular expression \<open>^https?:\/\/\<close>, anchored at the start of the string: the
  letters \<open>http\<close>, then a greedy optional \<open>s\<close>, then \<open>://\<close>. The result is the length
  of the match, or \<open>None\<close> when the string does not match.
\<close>

definition match_scheme :: "string \<Rightarrow> nat option" where
  "match_scheme s =
     (if startsWith s ''http'' then
        (let r = drop 4 s in
         if startsWith r ''s://'' then Some 8
         else if startsWith r ''://'' then Some 7
         else None)
      else None)"

text \<open>
  \<open>s.replace(re, r)\<close> for the non-global expression above and a replacement string
  without \<open>$\<close> patterns: the first (here: only possible) match is replaced, and a string
  without a match is returned as it is.
\<close>

definition replace_scheme :: "string \<Rightarrow> string \<Rightarrow> string" where
  "replace_scheme s r =
     (case match_scheme s of None \<Rightarrow> s | Some n \<Rightarrow> r @ drop n s)"

definition WS_URL :: "string \<Rightarrow> string" where
  "WS_URL base =
     replace_scheme base (if startsWith base ''https://'' then ''wss://'' else ''ws://'')"

section \<open>JavaScript values\<close>

text \<open>
  The hook reads what \<open>JSON.parse\<close> and \<open>response.json()\<close> return, so its inputs are
  JavaScript values. A number is a double: \<open>NaN\<close>, an infinity, or a finite number
  \<open>Fin x\<close> with its value \<open>x\<close> (a decimal literal of the source stands for the double next
  to it). The two zeros are one value \<open>Fin 0\<close>: the hook never divides by a number it
  received or computed, and nothing else it does tells them apart. An object is the list
  of its own properties.
\<close>

datatype jsnum = NaN | PosInf | NegInf | Fin real

datatype jsval =
    JUndefined
  | JNull
  | JBool bool
  | JNum jsnum
  | JStr string
  | JArr "jsval list"
  | JObj "(string \<times> jsval) list"

datatype js_error =
    TypeError
  | SyntaxError
  | FetchError
  | HFApiFailed
  | WebSocketConnectionFailed
  | BackendUrlNotConfigured

text \<open>Truthiness: \<open>undefined\<close>, \<open>null\<close>, \<open>false\<close>, \<open>0\<close>, \<open>NaN\<close> and \<open>""\<close> are falsy.\<close>

fun truthy :: "jsval \<Rightarrow> bool" where
  "truthy JUndefined = False"
| "truthy JNull = False"
| "truthy (JBool b) = b"
| "truthy (JNum NaN) = False"
| "truthy (JNum PosInf) = True"
| "truthy (JNum NegInf) = True"
| "truthy (JNum (Fin x)) = (x \<noteq> 0)"
| "truthy (JStr s) = (s \<noteq> [])"
| "truthy (JArr xs) = True"
| "truthy (JObj ps) = True"

text \<open>\<open>a || b\<close>: the left operand when it is truthy, the right one otherwise.\<close>

definition js_or :: "jsval \<Rightarrow> jsval \<Rightarrow> jsval" where
  "js_or a b = (if truthy a then a else b)"

definition nullish :: "jsval \<Rightarrow> bool" where
  "nullish v = (v = JUndefined \<or> v = JNull)"

text \<open>
  \<open>v.k\<close> for a value that is neither \<open>null\<close> nor \<open>undefined\<close>, and a name \<open>k\<close> that no
  prototype defines (the hook reads \<open>type\<close>, \<open>success\<close>, \<open>data\<close>, \<open>timestamp\<close> and the
  measurement names only): an own property of an object, \<open>undefined\<close> otherwise.
\<close>

fun read_prop :: "jsval \<Rightarrow> string \<Rightarrow> jsval" where
  "read_prop (JObj ps) k = (case map_of ps k of None \<Rightarrow> JUndefined | Some v \<Rightarrow> v)"
| "read_prop v k = JUndefined"

text \<open>\<open>v.k\<close> in general: reading a property of \<open>null\<close> or \<open>undefined\<close> throws.\<close>

definition get_prop :: "jsval \<Rightarrow> string \<Rightarrow> js_error + jsval" where
  "get_prop v k = (if nullish v then Inl TypeError else Inr (read_prop v k))"

text \<open>\<open>typeof v === 'object'\<close> holds of \<open>null\<close>, arrays and objects.\<close>

fun typeof_object :: "jsval \<Rightarrow> bool" where
  "typeof_object JNull = True"
| "typeof_object (JArr xs) = True"
| "typeof_object (JObj ps) = True"
| "typeof_object v = False"

text \<open>\<open>k in v\<close> for an object \<open>v\<close> and a name that no prototype defines.\<close>

fun has_prop :: "jsval \<Rightarrow> string \<Rightarrow> bool" where
  "has_prop (JObj ps) k = (map_of ps k \<noteq> None)"
| "has_prop v k = False"

text \<open>
  \<open>v[i]\<close> for the slots 0 and 1 the scoring client reads: an element of an array, a
  character of a string, the property \<open>"0"\<close> or \<open>"1"\<close> of an object.
\<close>

fun index_key :: "nat \<Rightarrow> string" where
  "index_key 0 = ''0''"
| "index_key (Suc n) = ''1''"

fun read_index :: "jsval \<Rightarrow> nat \<Rightarrow> jsval" where
  "read_index (JArr xs) i = (if i < length xs then xs ! i else JUndefined)"
| "read_index (JStr s) i = (if i < length s then JStr [s ! i] else JUndefined)"
| "read_index (JObj ps) i = read_prop (JObj ps) (index_key i)"
| "read_index v i = JUndefined"

text \<open>\<open>v?.[i]\<close>: \<open>undefined\<close> when \<open>v\<close> is \<open>null\<close> or \<open>undefined\<close>.\<close>

definition opt_index :: "jsval \<Rightarrow> nat \<Rightarrow> jsval" where
  "opt_index v i = (if nullish v then JUndefined else read_index v i)"

section \<open>Conversions, arithmetic and dates\<close>

text \<open>
  What is left to the host, because it depends on the digits of a number, on rounding or
  on the date formats the engine accepts: \<open>Date.parse\<close> of a string; the string of a
  finite number other than 0; the number of a string made of characters that occur in
  numeric literals; the rounded sum of two finite numbers, neither of them 0; and the
  rounded quotient of a finite number other than 0 by an array length above 1. Sums and
  quotients can overflow to an infinity.
\<close>

record host =
  date_parse :: "string \<Rightarrow> jsnum"
  number_string :: "real \<Rightarrow> string"
  string_number :: "string \<Rightarrow> jsnum"
  double_add :: "real \<Rightarrow> real \<Rightarrow> jsnum"
  double_div :: "real \<Rightarrow> real \<Rightarrow> jsnum"

text \<open>\<open>ToString\<close> of a number.\<close>

fun number_to_string :: "host \<Rightarrow> jsnum \<Rightarrow> string" where
  "number_to_string H NaN = ''NaN''"
| "number_to_string H PosInf = ''Infinity''"
| "number_to_string H NegInf = ''-Infinity''"
| "number_to_string H (Fin x) = (if x = 0 then ''0'' else number_string H x)"

text \<open>
  \<open>ToNumber\<close> of a string. A numeric literal is made of digits, signs, the point, an
  exponent mark, the word \<open>Infinity\<close>, a radix prefix, hexadecimal digits and white space;
  a string with any of the letters below is therefore no numeric literal and gives NaN.
\<close>

definition non_numeric_letters :: string where
  "non_numeric_letters = ''ghjklmpqrsuvwzGHJKLMNPQRSTUVWYZ''"

definition string_to_number :: "host \<Rightarrow> string \<Rightarrow> jsnum" where
  "string_to_number H s =
     (if list_ex (\<lambda>c. c \<in> set non_numeric_letters) s then NaN else string_number H s)"

text \<open>
  \<open>ToString\<close> and \<open>ToNumber\<close> of a primitive value (the last equation of each is for
  arrays and objects, which are converted to a primitive first and never get here).
\<close>

fun prim_string :: "host \<Rightarrow> jsval \<Rightarrow> string" where
  "prim_string H JUndefined = ''undefined''"
| "prim_string H JNull = ''null''"
| "prim_string H (JBool b) = (if b then ''true'' else ''false'')"
| "prim_string H (JNum n) = number_to_string H n"
| "prim_string H (JStr s) = s"
| "prim_string H v = []"

fun prim_number :: "host \<Rightarrow> jsval \<Rightarrow> jsnum" where
  "prim_number H JUndefined = NaN"
| "prim_number H JNull = Fin 0"
| "prim_number H (JBool b) = (if b then Fin 1 else Fin 0)"
| "prim_number H (JNum n) = n"
| "prim_number H (JStr s) = string_to_number H s"
| "prim_number H v = NaN"

text \<open>
  The string of any value. An object from JSON has no method of its own: it inherits
  \<open>valueOf\<close>, which returns the object itself, and \<open>toString\<close>, which gives
  \<open>[object Object]\<close>; an own property named \<open>toString\<close> hides the latter, is not callable,
  and the conversion throws. An array is joined with commas, \<open>null\<close> and \<open>undefined\<close>
  elements giving the empty string, and throws when an element does.
\<close>

fun to_string :: "host \<Rightarrow> jsval \<Rightarrow> js_error + string"
  and join :: "host \<Rightarrow> jsval list \<Rightarrow> js_error + string" where
  "to_string H JUndefined = Inr ''undefined''"
| "to_string H JNull = Inr ''null''"
| "to_string H (JBool b) = Inr (if b then ''true'' else ''false'')"
| "to_string H (JNum n) = Inr (number_to_string H n)"
| "to_string H (JStr s) = Inr s"
| "to_string H (JArr xs) = join H xs"
| "to_string H (JObj ps) =
     (if map_of ps ''toString'' = None then Inr ''[object Object]'' else Inl TypeError)"
| "join H [] = Inr []"
| "join H [x] = (if nullish x then Inr [] else to_string H x)"
| "join H (x # y # ys) =
     (case (if nullish x then Inr [] else to_string H x) of
        Inl e \<Rightarrow> Inl e
      | Inr s \<Rightarrow>
          (case join H (y # ys) of
             Inl e \<Rightarrow> Inl e
           | Inr t \<Rightarrow> Inr (s @ '','' @ t)))"

text \<open>The values whose conversion to a string does not throw.\<close>

fun converts :: "jsval \<Rightarrow> bool"
  and converts_all :: "jsval list \<Rightarrow> bool" where
  "converts JUndefined = True"
| "converts JNull = True"
| "converts (JBool b) = True"
| "converts (JNum n) = True"
| "converts (JStr s) = True"
| "converts (JArr xs) = converts_all xs"
| "converts (JObj ps) = (map_of ps ''toString'' = None)"
| "converts_all [] = True"
| "converts_all (x # xs) = (converts x \<and> converts_all xs)"

fun is_object :: "jsval \<Rightarrow> bool" where
  "is_object (JArr xs) = True"
| "is_object (JObj ps) = True"
| "is_object v = False"

text \<open>\<open>ToPrimitive\<close>: a primitive is kept, an array or object becomes its string.\<close>

definition to_primitive :: "host \<Rightarrow> jsval \<Rightarrow> js_error + jsval" where
  "to_primitive H v =
     (if is_object v
      then (case to_string H v of Inl e \<Rightarrow> Inl e | Inr s \<Rightarrow> Inr (JStr s))
      else Inr v)"

fun is_string :: "jsval \<Rightarrow> bool" where
  "is_string (JStr s) = True"
| "is_string v = False"

text \<open>
  The sum of two numbers. What does not depend on rounding is fixed: NaN is
  absorbing, opposite infinities give NaN, an infinity absorbs every finite number, and
  0 is neutral.
\<close>

fun num_add :: "host \<Rightarrow> jsnum \<Rightarrow> jsnum \<Rightarrow> jsnum" where
  "num_add H NaN b = NaN"
| "num_add H a NaN = NaN"
| "num_add H PosInf NegInf = NaN"
| "num_add H NegInf PosInf = NaN"
| "num_add H PosInf b = PosInf"
| "num_add H NegInf b = NegInf"
| "num_add H a PosInf = PosInf"
| "num_add H a NegInf = NegInf"
| "num_add H (Fin a) (Fin b) =
     (if a = 0 then Fin b else if b = 0 then Fin a else double_add H a b)"

text \<open>
  The quotient of a number by an array length \<open>n\<close>. Dividing by 1 changes nothing and
  0 stays 0; dividing by the length 0 gives NaN for 0 and an infinity otherwise.
\<close>

fun div_length :: "host \<Rightarrow> jsnum \<Rightarrow> nat \<Rightarrow> jsnum" where
  "div_length H NaN n = NaN"
| "div_length H PosInf n = PosInf"
| "div_length H NegInf n = NegInf"
| "div_length H (Fin a) n =
     (if a = 0 then (if n = 0 then NaN else Fin 0)
      else if n = 0 then (if 0 < a then PosInf else NegInf)
      else if n = 1 then Fin a
      else double_div H a (real n))"

text \<open>
  \<open>a + b\<close>: both operands are made primitive, the left one first; when one of them is
  then a string the strings are concatenated, otherwise the numbers are added.
\<close>

definition js_add :: "host \<Rightarrow> jsval \<Rightarrow> jsval \<Rightarrow> js_error + jsval" where
  "js_add H a b =
     (case to_primitive H a of
        Inl e \<Rightarrow> Inl e
      | Inr pa \<Rightarrow>
          (case to_primitive H b of
             Inl e \<Rightarrow> Inl e
           | Inr pb \<Rightarrow>
               if is_string pa \<or> is_string pb
               then Inr (JStr (prim_string H pa @ prim_string H pb))
               else Inr (JNum (num_add H (prim_number H pa) (prim_number H pb)))))"

text \<open>\<open>a / xs.length\<close>: the left operand is made a number and divided.\<close>

definition js_div_length :: "host \<Rightarrow> jsval \<Rightarrow> nat \<Rightarrow> js_error + jsval" where
  "js_div_length H a n =
     (case to_primitive H a of
        Inl e \<Rightarrow> Inl e
      | Inr pa \<Rightarrow> Inr (JNum (div_length H (prim_number H pa) n)))"

text \<open>
  \<open>TimeClip\<close>: a time value is an integral number of milliseconds of magnitude at most
  8.64e15; a finite number in that range is truncated towards 0, anything else is NaN.
\<close>

definition time_value :: "real \<Rightarrow> bool" where
  "time_value x = (\<bar>x\<bar> \<le> 8640000000000000 \<and> x = of_int \<lfloor>x\<rfloor>)"

fun time_clip :: "jsnum \<Rightarrow> jsnum" where
  "time_clip (Fin x) =
     (if \<bar>x\<bar> \<le> 8640000000000000
      then Fin (if 0 \<le> x then of_int \<lfloor>x\<rfloor> else of_int \<lceil>x\<rceil>)
      else NaN)"
| "time_clip n = NaN"

text \<open>
  \<open>new Date(v).getTime()\<close>: the value is made primitive, which can throw; a string is
  parsed as a date, anything else is made a number; the result is clipped.
\<close>

definition date_time :: "host \<Rightarrow> jsval \<Rightarrow> js_error + jsnum" where
  "date_time H v =
     (case to_primitive H v of
        Inl e \<Rightarrow> Inl e
      | Inr p \<Rightarrow>
          Inr (time_clip (if is_string p then date_parse H (prim_string H p)
                          else prim_number H p)))"

text \<open>
  A host for evaluating examples: it parses no date and no numeric string, prints every
  number as \<open>#\<close>, and adds and divides without rounding (which is what a double sum or
  quotient is whenever the exact result is a double).
\<close>

definition no_parse :: "string \<Rightarrow> jsnum" where
  "no_parse s = NaN"

definition hash_string :: "real \<Rightarrow> string" where
  "hash_string x = ''#''"

definition exact_add :: "real \<Rightarrow> real \<Rightarrow> jsnum" where
  "exact_add a b = Fin (a + b)"

definition exact_div :: "real \<Rightarrow> real \<Rightarrow> jsnum" where
  "exact_div a b = Fin (a / b)"

definition plain_host :: host where
  "plain_host = \<lparr>date_parse = no_parse, number_string = hash_string,
     string_number = no_parse, double_add = exact_add, double_div = exact_div\<rparr>"

section \<open>Payload normalizer\<close>

record GaitDataEntry =
  cadence :: jsval
  equilibriumScore :: jsval
  frequency :: jsval
  posturalSway :: jsval
  sensors :: "jsval list"
  stepWidth :: jsval
  steps :: jsval
  strideLength :: jsval
  kneeForce :: jsval
  timestamp :: jsval
  walkingSpeed :: jsval

text \<open>
  The object literal \<open>gaitEntry\<close> of \<open>ws.onmessage\<close>, which is also, field for field, the
  callback of \<open>result.data.map\<close> in \<open>fetchHistoricalData\<close>. \<open>now\<close> is what \<open>Date.now()\<close>
  returns. The first property read throws when the raw value is \<open>null\<close> or \<open>undefined\<close>,
  and \<open>new Date(data.timestamp || Date.now())\<close> throws when the timestamp cannot be made
  primitive; the other fields cannot throw, so the order of the fields does not matter.
\<close>

definition gaitEntry :: "host \<Rightarrow> real \<Rightarrow> jsval \<Rightarrow> js_error + GaitDataEntry" where
  "gaitEntry H now d =
     (if nullish d then Inl TypeError
      else case date_time H (js_or (read_prop d ''timestamp'') (JNum (Fin now))) of
        Inl e \<Rightarrow> Inl e
      | Inr t \<Rightarrow> Inr \<lparr>
        cadence = js_or (read_prop d ''cadence'') (JNum (Fin 0)),
        equilibriumScore = js_or (read_prop d ''equilibrium'') (JNum (Fin 0)),
        frequency = js_or (read_prop d ''frequency'') (JNum (Fin 0)),
        posturalSway = js_or (read_prop d ''posturalSway'') (JNum (Fin 0)),
        sensors = [],
        stepWidth = JNum (Fin 0),
        steps = js_or (read_prop d ''stepCount'') (JNum (Fin 0)),
        strideLength = js_or (read_prop d ''strideLength'') (JNum (Fin 0)),
        kneeForce = js_or (read_prop d ''kneeForce'') (JNum (Fin 0)),
        timestamp = JNum t,
        walkingSpeed = js_or (read_prop d ''walkingSpeed'') (JNum (Fin 0))
      \<rparr>)"

text \<open>
  The eight measurements the normalizer defaults with \<open>|| 0\<close>: the name the backend
  uses and the field of the canonical record it fills.
\<close>

definition numeric_fields :: "(string \<times> (GaitDataEntry \<Rightarrow> jsval)) list" where
  "numeric_fields =
     [(''cadence'', cadence), (''equilibrium'', equilibriumScore),
      (''frequency'', frequency), (''posturalSway'', posturalSway),
      (''stepCount'', steps), (''strideLength'', strideLength),
      (''kneeForce'', kneeForce), (''walkingSpeed'', walkingSpeed)]"

fun is_number :: "jsval \<Rightarrow> bool" where
  "is_number (JNum n) = True"
| "is_number v = False"

section \<open>Composite state and the world of the hook\<close>

record MLGaitResult =
  score :: jsval
  confidence :: jsval

record GaitMetricsState =
  data :: "GaitDataEntry list option"
  loading :: bool
  error :: "js_error option"
  isConnected :: bool
  mlResult :: "MLGaitResult option"

text \<open>
  Besides the React state, the hook owns the buffer \<open>historicalData.current\<close> and
  \<open>wsRef.current\<close>. The world also holds what the browser keeps for it: the sockets
  that were created and have not closed yet, the pending \<open>setTimeout(connectWebSocket,
  delay)\<close> calls (their delays, oldest first), whether the historical request is in
  flight, and the feature vector of a scoring request in flight.

  \<open>data\<close> is the buffer by value. In the source it is a reference to the buffer array;
  every in-place change of the buffer (\<open>unshift\<close>, \<open>pop\<close>) is followed, in the same
  handler, by \<open>setState\<close> with the buffer, so both views agree whenever a handler returns.
\<close>

record World =
  state :: GaitMetricsState
  historicalData :: "GaitDataEntry list"
  wsRef :: "nat option"
  sockets :: "nat list"
  next_socket :: nat
  timers :: "nat list"
  fetching :: bool
  scoring :: "jsval list option"

definition initial :: World where
  "initial = \<lparr>
     state = \<lparr>data = None, loading = True, error = None, isConnected = False,
              mlResult = None\<rparr>,
     historicalData = [], wsRef = None, sockets = [], next_socket = 0, timers = [],
     fetching = False, scoring = None\<rparr>"

section \<open>Live connection manager\<close>

text \<open>\<open>connectWebSocket\<close>: guarded by \<open>if (!WS_URL) return\<close>; a new socket, kept in \<open>wsRef\<close>.\<close>

definition connectWebSocket :: "string \<Rightarrow> World \<Rightarrow> World" where
  "connectWebSocket url w =
     (if url = [] then w
      else w\<lparr>wsRef := Some (next_socket w),
             sockets := sockets w @ [next_socket w],
             next_socket := Suc (next_socket w)\<rparr>)"

definition onopen :: "World \<Rightarrow> World" where
  "onopen w = w\<lparr>state := (state w)\<lparr>isConnected := True, loading := False\<rparr>\<rparr>"

text \<open>
  The handshake test of \<open>ws.onmessage\<close>:
  \<^verbatim>\<open>typeof parsedData === 'object' && parsedData !== null && 'type' in parsedData\<close>
  \<^verbatim>\<open>  && parsedData.type === 'connection'\<close>
\<close>

definition is_handshake :: "jsval \<Rightarrow> bool" where
  "is_handshake parsedData =
     (typeof_object parsedData \<and> parsedData \<noteq> JNull \<and> has_prop parsedData ''type''
      \<and> read_prop parsedData ''type'' = JStr ''connection'')"

text \<open>
  \<open>ws.onmessage\<close>. \<open>parsed\<close> is the outcome of \<open>JSON.parse(event.data)\<close>: the value, or the
  exception it throws. Every exception inside the handler is caught and logged only, so
  the world is then as it was (the record is built before the buffer is touched).
  An accepted record is put in front (\<open>unshift\<close>), and the last one is dropped (\<open>pop\<close>)
  when the buffer then holds more than 20.
\<close>

definition onmessage :: "host \<Rightarrow> real \<Rightarrow> js_error + jsval \<Rightarrow> World \<Rightarrow> World" where
  "onmessage H now parsed w =
     (case parsed of
        Inl e \<Rightarrow> w
      | Inr parsedData \<Rightarrow>
          if is_handshake parsedData then w
          else (case gaitEntry H now parsedData of
                  Inl e \<Rightarrow> w
                | Inr g \<Rightarrow>
                    (let h = g # historicalData w;
                         h' = (if length h > 20 then butlast h else h)
                     in w\<lparr>historicalData := h',
                          state := (state w)\<lparr>data := Some h', loading := False\<rparr>\<rparr>)))"

text \<open>\<open>ws.onclose\<close>: \<open>setTimeout(connectWebSocket, 3000)\<close> adds one pending timer.\<close>

definition onclose :: "World \<Rightarrow> World" where
  "onclose w = w\<lparr>state := (state w)\<lparr>isConnected := False\<rparr>, timers := timers w @ [3000]\<rparr>"

definition onerror :: "World \<Rightarrow> World" where
  "onerror w = w\<lparr>state := (state w)\<lparr>error := Some WebSocketConnectionFailed\<rparr>\<rparr>"

section \<open>Aggregate scoring client\<close>

text \<open>
  The first half of \<open>fetchMLGaitScore\<close>: the sample used for an empty buffer, and the
  seven averages, each \<open>useData.reduce((sum, d) => sum + d.f, 0) / useData.length\<close>.
\<close>

definition default_sample :: "real \<Rightarrow> GaitDataEntry" where
  "default_sample now = \<lparr>
     cadence = JNum (Fin 100),
     equilibriumScore = JNum (Fin 0.8),
     frequency = JNum (Fin 1.5),
     posturalSway = JNum (Fin 0.1),
     sensors = [],
     stepWidth = JNum (Fin 0),
     steps = JNum (Fin 0),
     strideLength = JNum (Fin 0.7),
     kneeForce = JNum (Fin 50),
     timestamp = JNum (Fin now),
     walkingSpeed = JNum (Fin 1.2)\<rparr>"

definition useData :: "real \<Rightarrow> GaitDataEntry list \<Rightarrow> GaitDataEntry list" where
  "useData now ds = (if length ds > 0 then ds else [default_sample now])"

text \<open>\<open>ds.reduce((sum, d) => sum + d.f, acc)\<close>; an addition that throws ends it.\<close>

fun reduce_sum :: "host \<Rightarrow> (GaitDataEntry \<Rightarrow> jsval) \<Rightarrow> jsval \<Rightarrow> GaitDataEntry list \<Rightarrow> js_error + jsval" where
  "reduce_sum H f acc [] = Inr acc"
| "reduce_sum H f acc (d # ds) =
     (case js_add H acc (f d) of
        Inl e \<Rightarrow> Inl e
      | Inr s \<Rightarrow> reduce_sum H f s ds)"

definition average :: "host \<Rightarrow> (GaitDataEntry \<Rightarrow> jsval) \<Rightarrow> GaitDataEntry list \<Rightarrow> js_error + jsval" where
  "average H f ds =
     (case reduce_sum H f (JNum (Fin 0)) ds of
        Inl e \<Rightarrow> Inl e
      | Inr s \<Rightarrow> js_div_length H s (length ds))"

text \<open>The results of a list of computations, or the first exception among them.\<close>

fun in_order :: "(js_error + 'a) list \<Rightarrow> js_error + 'a list" where
  "in_order [] = Inr []"
| "in_order (Inl e # rs) = Inl e"
| "in_order (Inr x # rs) = (case in_order rs of Inl e \<Rightarrow> Inl e | Inr xs \<Rightarrow> Inr (x # xs))"

text \<open>
  The seven averages are computed before the \<open>try\<close> of \<open>fetchMLGaitScore\<close>: an exception
  among them leaves the function, and no request is made.
\<close>

definition features :: "host \<Rightarrow> real \<Rightarrow> GaitDataEntry list \<Rightarrow> js_error + jsval list" where
  "features H now ds =
     (let u = useData now ds
      in in_order
           [average H cadence u, average H walkingSpeed u, average H strideLength u,
            average H equilibriumScore u, average H frequency u, average H posturalSway u,
            average H kneeForce u])"

text \<open>
  A \<open>fetch\<close> either rejects or resolves with a response: its \<open>ok\<close> flag and what
  \<open>response.json()\<close> gives, the parsed body or the exception of a body that does not parse.
\<close>

datatype response = Response (ok: bool) (json: "js_error + jsval")

type_synonym fetch_outcome = "js_error + response"

text \<open>
  The second half of \<open>fetchMLGaitScore\<close>, from the outcome of the request: a response
  that is not ok throws inside the \<open>try\<close>, and every exception gives the fallback pair.
\<close>

definition fallback_result :: MLGaitResult where
  "fallback_result = \<lparr>score = JNum (Fin 4), confidence = JNum (Fin 0.85)\<rparr>"

definition score_result :: "fetch_outcome \<Rightarrow> MLGaitResult" where
  "score_result out =
     (case out of
        Inl e \<Rightarrow> fallback_result
      | Inr r \<Rightarrow>
          if \<not> ok r then fallback_result
          else (case json r of
                  Inl e \<Rightarrow> fallback_result
                | Inr result \<Rightarrow>
                    (case get_prop result ''data'' of
                       Inl e \<Rightarrow> fallback_result
                     | Inr d \<Rightarrow>
                         \<lparr>score = js_or (opt_index d 0) (JNum (Fin 4)),
                          confidence = js_or (opt_index d 1) (JNum (Fin 0.85))\<rparr>)))"

text \<open>\<open>fetchMLGaitScore\<close> as a whole, for a scoring service that answers a feature vector.\<close>

definition fetchMLGaitScore ::
  "host \<Rightarrow> real \<Rightarrow> (jsval list \<Rightarrow> fetch_outcome) \<Rightarrow> GaitDataEntry list
     \<Rightarrow> js_error + MLGaitResult" where
  "fetchMLGaitScore H now service ds =
     (case features H now ds of
        Inl e \<Rightarrow> Inl e
      | Inr v \<Rightarrow> Inr (score_result (service v)))"

text \<open>
  The reading of the scoring response that the specification words: a slot is replaced
  by its default exactly when it is absent.
\<close>

definition slot_absent :: "jsval \<Rightarrow> nat \<Rightarrow> bool" where
  "slot_absent d i = (opt_index d i = JUndefined)"

definition spec_score_result :: "jsval \<Rightarrow> MLGaitResult" where
  "spec_score_result d =
     \<lparr>score = (if slot_absent d 0 then JNum (Fin 4) else opt_index d 0),
      confidence = (if slot_absent d 1 then JNum (Fin 0.85) else opt_index d 1)\<rparr>"

section \<open>Historical backfill fetcher\<close>

text \<open>
  \<open>result.data.map(item => ...)\<close>: calling \<open>map\<close> on a value that is not an array throws
  (no other JSON value has a \<open>map\<close> method); a callback that throws ends the mapping.
  \<open>clock i\<close> is \<open>Date.now()\<close> while item \<open>i\<close> is mapped.
\<close>

fun map_entries :: "host \<Rightarrow> (nat \<Rightarrow> real) \<Rightarrow> nat \<Rightarrow> jsval list \<Rightarrow> js_error + GaitDataEntry list" where
  "map_entries H clock i [] = Inr []"
| "map_entries H clock i (x # xs) =
     (case gaitEntry H (clock i) x of
        Inl e \<Rightarrow> Inl e
      | Inr g \<Rightarrow>
          (case map_entries H clock (Suc i) xs of
             Inl e \<Rightarrow> Inl e
           | Inr gs \<Rightarrow> Inr (g # gs)))"

fun map_data :: "host \<Rightarrow> (nat \<Rightarrow> real) \<Rightarrow> jsval \<Rightarrow> js_error + GaitDataEntry list" where
  "map_data H clock (JArr items) = map_entries H clock 0 items"
| "map_data H clock v = Inl TypeError"

text \<open>\<open>xs.slice(-n)\<close>: the last \<open>n\<close> elements, all of them when there are fewer.\<close>

definition slice_last :: "nat \<Rightarrow> 'a list \<Rightarrow> 'a list" where
  "slice_last n xs = drop (length xs - n) xs"

text \<open>
  The \<open>try\<close> block of \<open>fetchHistoricalData\<close>, from the outcome of the request:
  \<open>Inl\<close> is an exception on its way to the \<open>catch\<close>. The block changes nothing before
  its last statements, and a response that is not ok skips it altogether.
\<close>

definition historical_try ::
  "host \<Rightarrow> (nat \<Rightarrow> real) \<Rightarrow> fetch_outcome \<Rightarrow> World \<Rightarrow> js_error + World" where
  "historical_try H clock out w =
     (case out of
        Inl e \<Rightarrow> Inl e
      | Inr r \<Rightarrow>
          if ok r then
            (case json r of
               Inl e \<Rightarrow> Inl e
             | Inr result \<Rightarrow>
                 (case get_prop result ''success'' of
                    Inl e \<Rightarrow> Inl e
                  | Inr success \<Rightarrow>
                      if truthy success \<and> truthy (read_prop result ''data'') then
                        (case map_data H clock (read_prop result ''data'') of
                           Inl e \<Rightarrow> Inl e
                         | Inr mapped \<Rightarrow>
                             (let mappedData = rev mapped;
                                  h = slice_last 20 mappedData
                              in Inr (w\<lparr>historicalData := h,
                                        state := (state w)\<lparr>data := Some h, loading := False\<rparr>\<rparr>)))
                      else
                        Inr (w\<lparr>historicalData := [],
                               state := (state w)\<lparr>data := Some [], loading := False\<rparr>\<rparr>)))
          else Inr w)"

text \<open>The \<open>catch\<close> block: the error is recorded, the buffer and the data are emptied.\<close>

definition historical_catch :: "js_error \<Rightarrow> World \<Rightarrow> World" where
  "historical_catch e w =
     w\<lparr>historicalData := [],
       state := (state w)\<lparr>error := Some e, loading := False, data := Some []\<rparr>\<rparr>"

text \<open>
  \<open>fetchHistoricalData\<close> from the moment its request settles up to the moment the
  scoring request is sent: the \<open>try\<close>, the \<open>catch\<close>, then the feature vector of
  \<open>fetchMLGaitScore(historicalData.current)\<close>, computed at \<open>now\<close>. When computing it
  throws, nothing catches the exception and no scoring request is in flight.
\<close>

definition historical_settled ::
  "host \<Rightarrow> (nat \<Rightarrow> real) \<Rightarrow> real \<Rightarrow> fetch_outcome \<Rightarrow> World \<Rightarrow> World" where
  "historical_settled H clock now out w =
     (let w1 = (case historical_try H clock out w of
                  Inl e \<Rightarrow> historical_catch e w
                | Inr w' \<Rightarrow> w')
      in w1\<lparr>fetching := False,
            scoring := (case features H now (historicalData w1) of
                          Inl e \<Rightarrow> None
                        | Inr v \<Rightarrow> Some v)\<rparr>)"

text \<open>The end of \<open>fetchHistoricalData\<close>: the scoring result is published.\<close>

definition scoring_settled :: "fetch_outcome \<Rightarrow> World \<Rightarrow> World" where
  "scoring_settled out w =
     w\<lparr>scoring := None, state := (state w)\<lparr>mlResult := Some (score_result out)\<rparr>\<rparr>"

section \<open>Mounting the hook and the events that follow\<close>

text \<open>
  The three effects, in the order React runs them: the configuration check, the first
  \<open>connectWebSocket()\<close>, and the start of \<open>fetchHistoricalData()\<close>, which returns at once
  when \<open>API_BASE\<close> is empty.
\<close>

definition check_config :: "string \<Rightarrow> string \<Rightarrow> World \<Rightarrow> World" where
  "check_config base url w =
     (if base = [] \<or> url = [] then
        w\<lparr>state := (state w)\<lparr>error := Some BackendUrlNotConfigured, loading := False\<rparr>\<rparr>
      else w)"

definition start_fetch :: "string \<Rightarrow> World \<Rightarrow> World" where
  "start_fetch base w = (if base = [] then w else w\<lparr>fetching := True\<rparr>)"

definition mount :: "string \<Rightarrow> World" where
  "mount base =
     start_fetch base (connectWebSocket (WS_URL base) (check_config base (WS_URL base) initial))"

text \<open>
  What the browser can deliver afterwards. A socket event names its socket and is
  possible only while that socket has not closed; a socket closes once. A timeout is
  possible only while a timer is pending. The historical request settles once, and the
  scoring request settles after it was sent.
\<close>

datatype event =
    Open nat
  | Message nat "js_error + jsval" real
  | Error nat
  | Close nat
  | Timeout
  | HistoricalSettled fetch_outcome "nat \<Rightarrow> real" real
  | ScoringSettled fetch_outcome

fun dispatch :: "host \<Rightarrow> string \<Rightarrow> event \<Rightarrow> World \<Rightarrow> World option" where
  "dispatch H url (Open sid) w =
     (if sid \<in> set (sockets w) then Some (onopen w) else None)"
| "dispatch H url (Message sid parsed now) w =
     (if sid \<in> set (sockets w) then Some (onmessage H now parsed w) else None)"
| "dispatch H url (Error sid) w =
     (if sid \<in> set (sockets w) then Some (onerror w) else None)"
| "dispatch H url (Close sid) w =
     (if sid \<in> set (sockets w)
      then Some (onclose (w\<lparr>sockets := removeAll sid (sockets w)\<rparr>)) else None)"
| "dispatch H url Timeout w =
     (case timers w of
        [] \<Rightarrow> None
      | t # ts \<Rightarrow> Some (connectWebSocket url (w\<lparr>timers := ts\<rparr>)))"
| "dispatch H url (HistoricalSettled out clock now) w =
     (if fetching w then Some (historical_settled H clock now out w) else None)"
| "dispatch H url (ScoringSettled out) w =
     (if scoring w \<noteq> None then Some (scoring_settled out w) else None)"

fun run :: "host \<Rightarrow> string \<Rightarrow> event list \<Rightarrow> World \<Rightarrow> World option" where
  "run H url [] w = Some w"
| "run H url (ev # evs) w =
     (case dispatch H url ev w of None \<Rightarrow> None | Some w' \<Rightarrow> run H url evs w')"

text \<open>The worlds the hook can be in: mounted with some base URL, then any events.\<close>

definition reachable :: "host \<Rightarrow> string \<Rightarrow> event list \<Rightarrow> World \<Rightarrow> bool" where
  "reachable H base evs w = (run H (WS_URL base) evs (mount base) = Some w)"

section \<open>Predicates and sample inputs of the results\<close>

text \<open>
  The reconnect chain: at any moment the hook has at most one thing that can lead to a
  further \<open>connectWebSocket\<close>, a socket that has not closed or a pending timer.
\<close>

definition chain_inv :: "World \<Rightarrow> bool" where
  "chain_inv w = (length (sockets w) + length (timers w) \<le> 1)"


text \<open>
  The seven features in the order of the submitted vector; the number a numeric field
  holds; and the mean of a field over a buffer in the arithmetic of doubles: the values
  added one after the other in the order of the buffer, starting from 0, and the sum
  divided by the number of records.
\<close>

definition feature_fields :: "(GaitDataEntry \<Rightarrow> jsval) list" where
  "feature_fields =
     [cadence, walkingSpeed, strideLength, equilibriumScore, frequency, posturalSway,
      kneeForce]"

fun number_of :: "jsval \<Rightarrow> jsnum" where
  "number_of (JNum n) = n"
| "number_of v = NaN"

definition double_mean :: "host \<Rightarrow> (GaitDataEntry \<Rightarrow> jsval) \<Rightarrow> GaitDataEntry list \<Rightarrow> jsnum" where
  "double_mean H f ds =
     div_length H (foldl (num_add H) (Fin 0) (map (\<lambda>d. number_of (f d)) ds)) (length ds)"

text \<open>
  Sample inputs: a base URL; the world after the first socket opened and two sockets
  closed and were replaced; a telemetry message and its canonical record; a handshake; a
  record with a null and a zero measurement; records with a string where a number or a
  date is expected, and the canonical record of the first; a record whose timestamp is
  an object with a property \<open>toString\<close>; two scoring responses; and a historical envelope of 25 records,
  oldest first, numbered 1 to 25 by step count and timestamp.
\<close>

definition demo_base :: string where
  "demo_base = ''http://localhost:5000''"

definition after_two_closes :: World where
  "after_two_closes = initial\<lparr>
     state := (state initial)\<lparr>loading := False\<rparr>,
     wsRef := Some 2, sockets := [2], next_socket := 3, fetching := True\<rparr>"

definition demo_message :: jsval where
  "demo_message = JObj [(''cadence'', JNum (Fin 98)), (''timestamp'', JNum (Fin 1700))]"

definition demo_entry :: GaitDataEntry where
  "demo_entry = \<lparr>
     cadence = JNum (Fin 98), equilibriumScore = JNum (Fin 0), frequency = JNum (Fin 0),
     posturalSway = JNum (Fin 0), sensors = [], stepWidth = JNum (Fin 0),
     steps = JNum (Fin 0), strideLength = JNum (Fin 0), kneeForce = JNum (Fin 0),
     timestamp = JNum (Fin 1700), walkingSpeed = JNum (Fin 0)\<rparr>"

definition demo_handshake :: jsval where
  "demo_handshake = JObj [(''type'', JStr ''connection''), (''message'', JStr ''hello'')]"

definition demo_sparse :: jsval where
  "demo_sparse = JObj [(''cadence'', JNull), (''frequency'', JNum (Fin 0)),
                       (''walkingSpeed'', JNum (Fin 1.1))]"

definition demo_malformed :: jsval where
  "demo_malformed = JObj [(''cadence'', JStr ''fast'')]"

definition demo_fast_entry :: GaitDataEntry where
  "demo_fast_entry = \<lparr>
     cadence = JStr ''fast'', equilibriumScore = JNum (Fin 0), frequency = JNum (Fin 0),
     posturalSway = JNum (Fin 0), sensors = [], stepWidth = JNum (Fin 0),
     steps = JNum (Fin 0), strideLength = JNum (Fin 0), kneeForce = JNum (Fin 0),
     timestamp = JNum (Fin 0), walkingSpeed = JNum (Fin 0)\<rparr>"

definition demo_unconvertible :: jsval where
  "demo_unconvertible =
     JObj [(''cadence'', JNull), (''timestamp'', JObj [(''toString'', JNum (Fin 1))])]"


definition demo_scored :: jsval where
  "demo_scored = JObj [(''data'', JArr [JNum (Fin 7.2), JNum (Fin 0.91)])]"

definition demo_zero_score :: jsval where
  "demo_zero_score = JObj [(''data'', JArr [JNum (Fin 0), JNum (Fin 0.91)])]"

definition demo_item :: "nat \<Rightarrow> jsval" where
  "demo_item i = JObj [(''stepCount'', JNum (Fin (real i))), (''timestamp'', JNum (Fin (real i)))]"

definition demo_record :: "nat \<Rightarrow> GaitDataEntry" where
  "demo_record i = \<lparr>
     cadence = JNum (Fin 0), equilibriumScore = JNum (Fin 0), frequency = JNum (Fin 0),
     posturalSway = JNum (Fin 0), sensors = [], stepWidth = JNum (Fin 0),
     steps = JNum (Fin (real i)), strideLength = JNum (Fin 0), kneeForce = JNum (Fin 0),
     timestamp = JNum (Fin (real i)), walkingSpeed = JNum (Fin 0)\<rparr>"

definition demo_stamps :: "nat list" where
  "demo_stamps =
     [1, 2, 3, 4, 5, 6, 7, 8, 9, 10, 11, 12, 13, 14, 15, 16, 17, 18, 19, 20,
      21, 22, 23, 24, 25]"

definition demo_history :: jsval where
  "demo_history =
     JObj [(''success'', JBool True), (''data'', JArr (map demo_item demo_stamps))]"

fun zero_clock :: "nat \<Rightarrow> real" where
  "zero_clock i = 0"

section \<open>Endpoint resolver: results\<close>

lemma WS_URL_http: "WS_URL (''http://'' @ rest) = ''ws://'' @ rest"
  by (simp add: WS_URL_def replace_scheme_def match_scheme_def startsWith_def)

lemma WS_URL_https: "WS_URL (''https://'' @ rest) = ''wss://'' @ rest"
  by (simp add: WS_URL_def replace_scheme_def match_scheme_def startsWith_def)

text \<open>
  C5. For every base endpoint that begins with \<open>http://\<close> or \<open>https://\<close>, the resolver
  replaces that scheme by \<open>ws://\<close>, respectively \<open>wss://\<close>, and keeps every character after
  the scheme; in particular \<open>http://host:5000\<close> becomes \<open>ws://host:5000\<close> and
  \<open>https://host\<close> becomes \<open>wss://host\<close>.
\<close>

theorem C5_endpoint_resolver:
  "WS_URL (''http://'' @ rest) = ''ws://'' @ rest
   \<and> WS_URL (''https://'' @ rest) = ''wss://'' @ rest
   \<and> WS_URL ''http://host:5000'' = ''ws://host:5000''
   \<and> WS_URL ''https://host'' = ''wss://host''"
  using WS_URL_http [of rest] WS_URL_https [of rest]
    WS_URL_http [of "''host:5000''"] WS_URL_https [of "''host''"]
  by simp

theorem C5_endpoint_resolver_witness:
  "WS_URL ''http://localhost:5000'' = ''ws://localhost:5000''
   \<and> WS_URL ''https://gait.example/api'' = ''wss://gait.example/api''
   \<and> WS_URL (API_BASE None) = ''ws://localhost:5000''"
  using C5_endpoint_resolver [of "''localhost:5000''"]
    C5_endpoint_resolver [of "''gait.example/api''"]
  by (simp add: API_BASE_def)

section \<open>Rolling history buffer: results\<close>

lemma onmessage_accepted:
  assumes "\<not> is_handshake v" and "gaitEntry H now v = Inr g"
  shows "historicalData (onmessage H now (Inr v) w) =
           (if length (historicalData w) \<ge> 20 then butlast (g # historicalData w)
            else g # historicalData w)"
    and "data (state (onmessage H now (Inr v) w)) = Some (historicalData (onmessage H now (Inr v) w))"
    and "loading (state (onmessage H now (Inr v) w)) = False"
  using assms by (auto simp: onmessage_def Let_def)

lemma butlast_cons_take:
  "length xs = 20 \<Longrightarrow> butlast (g # xs) = g # take 19 xs"
  by (cases xs rule: rev_cases) (auto simp: butlast_append)

lemma onmessage_prepend:
  assumes "\<not> is_handshake v" and "gaitEntry H now v = Inr g"
    and "length (historicalData w) \<le> 20"
  shows "historicalData (onmessage H now (Inr v) w) = g # take 19 (historicalData w)"
proof (cases "length (historicalData w) = 20")
  case True
  then show ?thesis
    using assms by (simp add: onmessage_accepted(1) butlast_cons_take del: butlast.simps)
next
  case False
  with assms(3) have "length (historicalData w) < 20" by simp
  then show ?thesis
    using assms by (simp add: onmessage_accepted(1))
qed

lemma onmessage_bounded:
  "length (historicalData w) \<le> 20 \<Longrightarrow> length (historicalData (onmessage H now p w)) \<le> 20"
  by (auto simp: onmessage_def Let_def split: sum.splits)

lemma slice_last_length: "length (slice_last n xs) \<le> n"
  by (simp add: slice_last_def)

lemma historical_try_bounded:
  "historical_try H clock out w = Inr w' \<Longrightarrow> length (historicalData w) \<le> 20
   \<Longrightarrow> length (historicalData w') \<le> 20"
  by (auto simp: historical_try_def Let_def slice_last_def split: sum.splits if_splits)

lemma historical_settled_bounded:
  "length (historicalData w) \<le> 20
   \<Longrightarrow> length (historicalData (historical_settled H clock now out w)) \<le> 20"
  by (auto simp: historical_settled_def Let_def historical_catch_def
      dest: historical_try_bounded split: sum.splits)

lemma connectWebSocket_buffer [simp]:
  "historicalData (connectWebSocket url w) = historicalData w"
  by (simp add: connectWebSocket_def)

lemma dispatch_bounded:
  "dispatch H url ev w = Some w' \<Longrightarrow> length (historicalData w) \<le> 20
   \<Longrightarrow> length (historicalData w') \<le> 20"
  by (cases ev)
    (auto simp: onopen_def onerror_def onclose_def scoring_settled_def
      onmessage_bounded historical_settled_bounded split: if_splits list.splits)

lemma run_bounded:
  "run H url evs w = Some w' \<Longrightarrow> length (historicalData w) \<le> 20
   \<Longrightarrow> length (historicalData w') \<le> 20"
proof (induction evs arbitrary: w)
  case Nil
  then show ?case by simp
next
  case (Cons ev evs)
  then show ?case
    by (auto split: option.splits dest: dispatch_bounded)
qed

lemma mount_buffer: "historicalData (mount base) = []"
  by (simp add: mount_def start_fetch_def check_config_def initial_def)

lemma reachable_bounded: "reachable H base evs w \<Longrightarrow> length (historicalData w) \<le> 20"
  unfolding reachable_def using run_bounded [of H _ evs "mount base" w]
  by (simp add: mount_buffer)

lemma mount_demo:
  "mount demo_base = initial\<lparr>wsRef := Some 0, sockets := [0], next_socket := 1, fetching := True\<rparr>"
  by (simp add: demo_base_def mount_def start_fetch_def check_config_def connectWebSocket_def
      WS_URL_def replace_scheme_def match_scheme_def startsWith_def initial_def)

lemma WS_URL_demo: "WS_URL demo_base = ''ws://localhost:5000''"
  by (simp add: demo_base_def WS_URL_def replace_scheme_def match_scheme_def startsWith_def)

lemma reachable_demo:
  "reachable H demo_base [Open 0, Close 0, Timeout, Close 1, Timeout] after_two_closes"
  by (simp add: reachable_def mount_demo WS_URL_demo onopen_def onclose_def
      connectWebSocket_def initial_def after_two_closes_def)

lemma demo_message_entry: "gaitEntry plain_host 5 demo_message = Inr demo_entry"
  by (simp add: gaitEntry_def demo_message_def demo_entry_def nullish_def js_or_def
      date_time_def to_primitive_def)

lemma demo_message_accepted: "\<not> is_handshake demo_message"
  by (simp add: is_handshake_def demo_message_def)

text \<open>
  C3. In every world the hook can reach, whatever was streamed or fetched before, the
  buffer holds at most 20 records; an accepted telemetry message (one that is not a
  handshake and normalizes to \<open>g\<close>) puts \<open>g\<close> at index 0, followed by the previous records
  in their order, of which only the last is dropped when there were 20; the buffer then
  again holds at most 20.
\<close>

theorem C3_prepend_bounded:
  assumes "reachable H base evs w"
    and "\<not> is_handshake v" and "gaitEntry H now v = Inr g"
  shows "length (historicalData w) \<le> 20
     \<and> historicalData (onmessage H now (Inr v) w) = g # take 19 (historicalData w)
     \<and> length (historicalData (onmessage H now (Inr v) w)) \<le> 20
     \<and> historicalData (onmessage H now (Inr v) w) ! 0 = g"
proof -
  from reachable_bounded [OF assms(1)] have b: "length (historicalData w) \<le> 20" .
  from onmessage_prepend [OF assms(2,3) b]
  have p: "historicalData (onmessage H now (Inr v) w) = g # take 19 (historicalData w)" .
  from b p show ?thesis by simp
qed

theorem C3_prepend_bounded_witness:
  "reachable plain_host demo_base [Open 0, Close 0, Timeout, Close 1, Timeout] after_two_closes
   \<and> \<not> is_handshake demo_message
   \<and> gaitEntry plain_host 5 demo_message = Inr demo_entry
   \<and> historicalData (onmessage plain_host 5 (Inr demo_message) after_two_closes) = [demo_entry]"
proof -
  have r: "reachable plain_host demo_base [Open 0, Close 0, Timeout, Close 1, Timeout]
             after_two_closes"
    by (rule reachable_demo)
  have e: "historicalData after_two_closes = []"
    by (simp add: after_two_closes_def initial_def)
  from C3_prepend_bounded [OF r demo_message_accepted demo_message_entry] e
  have "historicalData (onmessage plain_host 5 (Inr demo_message) after_two_closes) = [demo_entry]"
    by simp
  with r demo_message_accepted demo_message_entry show ?thesis by blast
qed

section \<open>Message handler: results\<close>

lemma is_handshake_object:
  "is_handshake (JObj ps) = (map_of ps ''type'' = Some (JStr ''connection''))"
  by (auto simp: is_handshake_def split: option.splits)

text \<open>
  C8. A message that does not parse, or that is a handshake (an object whose \<open>type\<close> is
  \<open>"connection"\<close>), leaves the whole world as it was: the buffer, the published data, the
  loading flag, the error, and the sockets and \<open>wsRef\<close>; delivered on a socket that has
  not closed, it is handled and changes nothing.
\<close>

theorem C8_ignored_messages_change_nothing:
  assumes "(\<exists>e. parsed = Inl e) \<or> (\<exists>v. parsed = Inr v \<and> is_handshake v)"
  shows "onmessage H now parsed w = w
     \<and> (sid \<in> set (sockets w) \<longrightarrow> dispatch H url (Message sid parsed now) w = Some w)"
  using assms by (auto simp: onmessage_def)

theorem C8_ignored_messages_change_nothing_witness:
  "is_handshake demo_handshake
   \<and> onmessage plain_host 5 (Inr demo_handshake) after_two_closes = after_two_closes
   \<and> onmessage plain_host 5 (Inl SyntaxError) after_two_closes = after_two_closes
   \<and> dispatch plain_host ''ws://localhost:5000'' (Message 2 (Inr demo_handshake) 5)
        after_two_closes = Some after_two_closes"
proof -
  have h: "is_handshake demo_handshake"
    by (simp add: demo_handshake_def is_handshake_object)
  have m: "2 \<in> set (sockets after_two_closes)"
    by (simp add: after_two_closes_def)
  from h have a: "(\<exists>e. Inr demo_handshake = (Inl e :: js_error + jsval))
      \<or> (\<exists>v. (Inr demo_handshake :: js_error + jsval) = Inr v \<and> is_handshake v)"
    by blast
  have b: "(\<exists>e. (Inl SyntaxError :: js_error + jsval) = Inl e)
      \<or> (\<exists>v. (Inl SyntaxError :: js_error + jsval) = Inr v \<and> is_handshake v)"
    by blast
  from C8_ignored_messages_change_nothing [OF a, of plain_host 5 after_two_closes 2
      "''ws://localhost:5000''"]
    C8_ignored_messages_change_nothing [OF b, of plain_host 5 after_two_closes 2
      "''ws://localhost:5000''"] h m
  show ?thesis by blast
qed

section \<open>Reconnection: results\<close>

lemma connectWebSocket_chain:
  "length (sockets (connectWebSocket url w)) \<le> Suc (length (sockets w))"
  "timers (connectWebSocket url w) = timers w"
  by (simp_all add: connectWebSocket_def)

lemma onmessage_chain [simp]:
  "sockets (onmessage H now p w) = sockets w" "timers (onmessage H now p w) = timers w"
  by (auto simp: onmessage_def Let_def split: sum.splits)

lemma historical_try_chain:
  "historical_try H clock out w = Inr w' \<Longrightarrow> sockets w' = sockets w \<and> timers w' = timers w"
  by (auto simp: historical_try_def Let_def split: sum.splits if_splits)

lemma historical_settled_chain [simp]:
  "sockets (historical_settled H clock now out w) = sockets w"
  "timers (historical_settled H clock now out w) = timers w"
  by (auto simp: historical_settled_def Let_def historical_catch_def
      dest: historical_try_chain split: sum.splits)

lemma chain_live:
  assumes "length xs + length ts \<le> 1" and "sid \<in> set xs"
  shows "ts = [] \<and> removeAll sid xs = []"
proof -
  from assms(2) obtain y ys where xs: "xs = y # ys" by (cases xs) auto
  with assms(1) have "ys = []" "ts = []" by simp_all
  with xs assms(2) show ?thesis by simp
qed

lemma dispatch_chain:
  assumes "dispatch H url ev w = Some w'" and "chain_inv w"
  shows "chain_inv w'"
proof (cases ev)
  case (Close sid)
  with assms have sid: "sid \<in> set (sockets w)" and w': "w' = onclose (w\<lparr>sockets := removeAll sid (sockets w)\<rparr>)"
    by (simp_all split: if_splits)
  from chain_live [OF _ sid, of "timers w"] assms(2)
  have "timers w = []" "removeAll sid (sockets w) = []" by (simp_all add: chain_inv_def)
  with w' show ?thesis by (simp add: chain_inv_def onclose_def)
next
  case Timeout
  with assms obtain t ts where ts: "timers w = t # ts"
    by (auto split: list.splits)
  with assms Timeout have w': "w' = connectWebSocket url (w\<lparr>timers := ts\<rparr>)" by simp
  from ts assms(2) have "sockets w = []" "ts = []" by (simp_all add: chain_inv_def)
  then show ?thesis
    using connectWebSocket_chain [of url "w\<lparr>timers := ts\<rparr>"] w'
    by (simp add: chain_inv_def)
qed (use assms in \<open>auto simp: chain_inv_def onopen_def onerror_def scoring_settled_def
      split: if_splits\<close>)

lemma run_chain:
  "run H url evs w = Some w' \<Longrightarrow> chain_inv w \<Longrightarrow> chain_inv w'"
  by (induction evs arbitrary: w) (auto split: option.splits dest: dispatch_chain)

lemma mount_chain: "chain_inv (mount base)"
  by (simp add: chain_inv_def mount_def start_fetch_def check_config_def initial_def
      connectWebSocket_def)

lemma reachable_chain: "reachable H base evs w \<Longrightarrow> chain_inv w"
  unfolding reachable_def using run_chain [of H _ evs "mount base" w] mount_chain by simp

text \<open>
  C9. \<open>ws.onclose\<close> sets the connectivity flag false and adds exactly one timer, of
  3000 ms, to the pending ones. In every world the hook can reach there is at most one
  pending timer; when a socket can still close, none is pending, so after its close the
  one timer of 3000 ms is the only pending one and no socket is left.
\<close>

theorem C9_close_schedules_one_reconnect:
  assumes "reachable H base evs w"
  shows "length (timers w) \<le> 1
     \<and> (\<forall>sid \<in> set (sockets w).
          timers w = []
          \<and> dispatch H (WS_URL base) (Close sid) w
              = Some (onclose (w\<lparr>sockets := removeAll sid (sockets w)\<rparr>))
          \<and> timers (onclose (w\<lparr>sockets := removeAll sid (sockets w)\<rparr>)) = [3000]
          \<and> sockets (onclose (w\<lparr>sockets := removeAll sid (sockets w)\<rparr>)) = [])
     \<and> isConnected (state (onclose w0)) = False
     \<and> timers (onclose w0) = timers w0 @ [3000]"
proof -
  from reachable_chain [OF assms] have c: "length (sockets w) + length (timers w) \<le> 1"
    by (simp add: chain_inv_def)
  then have "length (timers w) \<le> 1" by simp
  moreover have "timers w = [] \<and> removeAll sid (sockets w) = []"
    if "sid \<in> set (sockets w)" for sid
    using chain_live [OF c that] .
  ultimately show ?thesis by (simp add: onclose_def)
qed

theorem C9_close_schedules_one_reconnect_witness:
  "reachable plain_host demo_base [Open 0, Close 0, Timeout, Close 1, Timeout] after_two_closes
   \<and> length (timers after_two_closes) \<le> 1
   \<and> 2 \<in> set (sockets after_two_closes)
   \<and> timers (onclose (after_two_closes\<lparr>sockets := removeAll 2 (sockets after_two_closes)\<rparr>))
       = [3000]"
proof -
  have r: "reachable plain_host demo_base [Open 0, Close 0, Timeout, Close 1, Timeout]
             after_two_closes"
    by (rule reachable_demo)
  have m: "2 \<in> set (sockets after_two_closes)"
    by (simp add: after_two_closes_def)
  from C9_close_schedules_one_reconnect [OF r, of initial] m r show ?thesis
    by blast
qed

section \<open>Payload normalizer: results\<close>

lemma nullish_converts: "nullish v \<Longrightarrow> converts v"
  by (auto simp: nullish_def)

lemma to_string_returns:
  "converts v \<Longrightarrow> \<exists>s. to_string H v = Inr s"
  "converts_all xs \<Longrightarrow> \<exists>s. join H xs = Inr s"
proof (induction H v and H xs rule: to_string_join.induct)
  case (10 H x y ys)
  from "10.prems" have cx: "converts x" and cy: "converts_all (y # ys)" by simp_all
  have "\<exists>s. (if nullish x then Inr [] else to_string H x) = Inr s"
  proof (cases "nullish x")
    case True
    then show ?thesis by simp
  next
    case False
    with "10.IH"(1) cx show ?thesis by simp
  qed
  then obtain s where s: "(if nullish x then Inr [] else to_string H x) = Inr s" by blast
  from "10.IH"(2) [OF s cy] obtain t where "join H (y # ys) = Inr t" by blast
  with s show ?case by simp
qed auto

lemma to_string_throws:
  "\<not> converts v \<Longrightarrow> to_string H v = Inl TypeError"
  "\<not> converts_all xs \<Longrightarrow> join H xs = Inl TypeError"
proof (induction H v and H xs rule: to_string_join.induct)
  case (9 H x)
  then have "\<not> converts x" by simp
  with nullish_converts [of x] have "\<not> nullish x" by blast
  with 9 show ?case by simp
next
  case (10 H x y ys)
  show ?case
  proof (cases "converts x")
    case True
    with "10.prems" have cy: "\<not> converts_all (y # ys)" by simp
    have "\<exists>s. (if nullish x then Inr [] else to_string H x) = Inr s"
      using to_string_returns(1) [OF True, of H] by auto
    then obtain s where s: "(if nullish x then Inr [] else to_string H x) = Inr s" by blast
    from "10.IH"(2) [OF s cy] s show ?thesis by simp
  next
    case False
    with nullish_converts [of x] have n: "\<not> nullish x" by blast
    with "10.IH"(1) False have "to_string H x = Inl TypeError" by blast
    with n show ?thesis by simp
  qed
qed auto

lemma to_primitive_converts:
  "converts v \<Longrightarrow> \<exists>p. to_primitive H v = Inr p \<and> \<not> is_object p"
  "\<not> converts v \<Longrightarrow> to_primitive H v = Inl TypeError"
proof -
  show "\<exists>p. to_primitive H v = Inr p \<and> \<not> is_object p" if "converts v"
  proof (cases "is_object v")
    case True
    from to_string_returns(1) [OF that, of H] obtain s where "to_string H v = Inr s"
      by blast
    with True show ?thesis by (simp add: to_primitive_def)
  next
    case False
    then show ?thesis by (simp add: to_primitive_def)
  qed
  show "to_primitive H v = Inl TypeError" if "\<not> converts v"
  proof -
    from that have "is_object v" by (cases v) simp_all
    with to_string_throws(1) [OF that, of H] show ?thesis
      by (simp add: to_primitive_def)
  qed
qed

lemma time_clip_value: "time_clip n = NaN \<or> (\<exists>x. time_clip n = Fin x \<and> time_value x)"
proof (cases n)
  case (Fin x)
  show ?thesis
  proof (cases "\<bar>x\<bar> \<le> 8640000000000000")
    case True
    show ?thesis
    proof (cases "0 \<le> x")
      case True
      then have "0 \<le> real_of_int \<lfloor>x\<rfloor>" "real_of_int \<lfloor>x\<rfloor> \<le> x" by simp_all
      with \<open>\<bar>x\<bar> \<le> 8640000000000000\<close> have "time_value (real_of_int \<lfloor>x\<rfloor>)"
        by (simp add: time_value_def)
      with \<open>\<bar>x\<bar> \<le> 8640000000000000\<close> True Fin show ?thesis by simp
    next
      case False
      then have "real_of_int \<lceil>x\<rceil> \<le> 0" "x \<le> real_of_int \<lceil>x\<rceil>"
        by (simp_all add: ceiling_le_iff)
      with \<open>\<bar>x\<bar> \<le> 8640000000000000\<close> have "\<bar>real_of_int \<lceil>x\<rceil>\<bar> \<le> 8640000000000000"
        by linarith
      then have "time_value (real_of_int \<lceil>x\<rceil>)"
        by (simp add: time_value_def)
      with \<open>\<bar>x\<bar> \<le> 8640000000000000\<close> False Fin show ?thesis by simp
    qed
  next
    case False
    with Fin show ?thesis by simp
  qed
qed simp_all


lemma date_time_converts:
  "converts v \<Longrightarrow>
   \<exists>t. date_time H v = Inr t \<and> (t = NaN \<or> (\<exists>x. t = Fin x \<and> time_value x))"
  "\<not> converts v \<Longrightarrow> date_time H v = Inl TypeError"
proof -
  show "\<exists>t. date_time H v = Inr t \<and> (t = NaN \<or> (\<exists>x. t = Fin x \<and> time_value x))"
    if "converts v"
  proof -
    from to_primitive_converts(1) [OF that] obtain p where "to_primitive H v = Inr p"
      by blast
    then show ?thesis using time_clip_value by (simp add: date_time_def)
  qed
  show "date_time H v = Inl TypeError" if "\<not> converts v"
    using to_primitive_converts(2) [OF that] by (simp add: date_time_def)
qed

lemma date_time_number: "date_time H (JNum n) = Inr (time_clip n)"
  by (simp add: date_time_def to_primitive_def)

lemma js_or_converts: "converts (js_or v (JNum n)) = converts v"
  by (cases v rule: truthy.cases) (simp_all add: js_or_def)

lemma gaitEntry_throws:
  "nullish raw \<or> \<not> converts (read_prop raw ''timestamp'')
   \<Longrightarrow> gaitEntry H now raw = Inl TypeError"
  using date_time_converts(2) [of "js_or (read_prop raw ''timestamp'') (JNum (Fin now))" H]
  by (auto simp: gaitEntry_def js_or_converts)

lemma gaitEntry_returns:
  assumes "\<not> nullish raw" and "converts (read_prop raw ''timestamp'')"
  shows "\<exists>g t. gaitEntry H now raw = Inr g
     \<and> date_time H (js_or (read_prop raw ''timestamp'') (JNum (Fin now))) = Inr t
     \<and> timestamp g = JNum t \<and> (t = NaN \<or> (\<exists>x. t = Fin x \<and> time_value x))"
proof -
  from assms(2) have "converts (js_or (read_prop raw ''timestamp'') (JNum (Fin now)))"
    by (simp add: js_or_converts)
  from date_time_converts(1) [OF this, of H] obtain t where
    "date_time H (js_or (read_prop raw ''timestamp'') (JNum (Fin now))) = Inr t"
    "t = NaN \<or> (\<exists>x. t = Fin x \<and> time_value x)"
    by blast
  with assms(1) show ?thesis by (simp add: gaitEntry_def)
qed


lemma gaitEntry_field:
  assumes "gaitEntry H now raw = Inr g" and "(k, f) \<in> set numeric_fields"
  shows "f g = js_or (read_prop raw k) (JNum (Fin 0))"
  using assms by (auto simp: numeric_fields_def gaitEntry_def split: if_splits sum.splits)

lemma gaitEntry_fixed:
  assumes "gaitEntry H now raw = Inr g"
  shows "sensors g = []" and "stepWidth g = JNum (Fin 0)" and "is_number (timestamp g)"
  using assms by (auto simp: gaitEntry_def split: if_splits sum.splits)



lemma demo_unconvertible_throws: "gaitEntry H now demo_unconvertible = Inl TypeError"
  by (rule gaitEntry_throws) (simp add: demo_unconvertible_def)

text \<open>
  C6, as claimed, fails: the record \<open>{"cadence": null, "timestamp": {"toString": 1}}\<close>
  has a null cadence, but its timestamp cannot be made primitive, so
  \<open>new Date(data.timestamp || Date.now())\<close> throws and no canonical record is produced.
\<close>

theorem C6_timestamp_object_counterexample:
  "\<not> nullish demo_unconvertible
   \<and> \<not> truthy (read_prop demo_unconvertible ''cadence'')
   \<and> gaitEntry plain_host 0 demo_unconvertible = Inl TypeError"
  by (simp add: demo_unconvertible_throws) (simp add: demo_unconvertible_def nullish_def)

text \<open>
  C6, amended. For a raw record whose timestamp converts (it is absent, a number, a
  string, a boolean, or an object or array that reaches no own property \<open>toString\<close>), and
  any of its eight measurements: when the raw field is omitted, null or otherwise falsy,
  a canonical record is produced and its field is exactly the number 0; the sensor
  readings of the canonical record are the empty sequence.
\<close>

theorem C6_falsy_field_is_zero:
  assumes "\<not> nullish raw" and "converts (read_prop raw ''timestamp'')"
    and "(k, f) \<in> set numeric_fields" and "\<not> truthy (read_prop raw k)"
  shows "\<exists>g. gaitEntry H now raw = Inr g \<and> f g = JNum (Fin 0) \<and> sensors g = []"
proof -
  from gaitEntry_returns [OF assms(1,2)] obtain g where g: "gaitEntry H now raw = Inr g"
    by blast
  from gaitEntry_field [OF g assms(3)] assms(4) have "f g = JNum (Fin 0)"
    by (simp add: js_or_def)
  with g gaitEntry_fixed(1) [OF g] show ?thesis by simp
qed

theorem C6_falsy_field_is_zero_witness:
  "\<not> nullish demo_sparse
   \<and> converts (read_prop demo_sparse ''timestamp'')
   \<and> (''cadence'', cadence) \<in> set numeric_fields
   \<and> \<not> truthy (read_prop demo_sparse ''cadence'')
   \<and> (''kneeForce'', kneeForce) \<in> set numeric_fields
   \<and> read_prop demo_sparse ''kneeForce'' = JUndefined
   \<and> (\<exists>g. gaitEntry plain_host 5 demo_sparse = Inr g \<and> cadence g = JNum (Fin 0)
          \<and> sensors g = [])
   \<and> (\<exists>g. gaitEntry plain_host 5 demo_sparse = Inr g \<and> kneeForce g = JNum (Fin 0)
          \<and> sensors g = [])"
proof -
  have n: "\<not> nullish demo_sparse" by (simp add: nullish_def demo_sparse_def)
  have t: "converts (read_prop demo_sparse ''timestamp'')" by (simp add: demo_sparse_def)
  have c: "(''cadence'', cadence) \<in> set numeric_fields"
    and k: "(''kneeForce'', kneeForce) \<in> set numeric_fields"
    by (simp_all add: numeric_fields_def)
  have fc: "\<not> truthy (read_prop demo_sparse ''cadence'')"
    and uk: "read_prop demo_sparse ''kneeForce'' = JUndefined"
    by (simp_all add: demo_sparse_def)
  from uk have fk: "\<not> truthy (read_prop demo_sparse ''kneeForce'')" by simp
  from C6_falsy_field_is_zero [OF n t c fc, of plain_host 5]
    C6_falsy_field_is_zero [OF n t k fk, of plain_host 5] n t c k fc uk
  show ?thesis by blast
qed

lemma demo_malformed_entry: "gaitEntry H 0 demo_malformed = Inr demo_fast_entry"
  by (simp add: gaitEntry_def demo_malformed_def demo_fast_entry_def nullish_def js_or_def
      date_time_number)




section \<open>Aggregate scoring client: results\<close>

lemma score_result_failed:
  "score_result (Inl e) = fallback_result"
  "score_result (Inr (Response False body)) = fallback_result"
  "score_result (Inr (Response True (Inl e))) = fallback_result"
  "nullish result \<Longrightarrow> score_result (Inr (Response True (Inr result))) = fallback_result"
  by (simp_all add: score_result_def get_prop_def)

lemma score_result_ok:
  "\<not> nullish result \<Longrightarrow>
   score_result (Inr (Response True (Inr result)))
     = \<lparr>score = js_or (opt_index (read_prop result ''data'') 0) (JNum (Fin 4)),
        confidence = js_or (opt_index (read_prop result ''data'') 1) (JNum (Fin 0.85))\<rparr>"
  by (simp add: score_result_def get_prop_def)

text \<open>
  C4, as claimed, fails: the default also replaces a slot that is present and falsy.
  For the response \<open>{"data": [0, 0.91]}\<close> the first slot is present, the specification's
  reading gives the score 0, and the client returns the score 4.
\<close>

theorem C4_zero_slot_counterexample:
  "score_result (Inr (Response True (Inr demo_zero_score)))
     = \<lparr>score = JNum (Fin 4), confidence = JNum (Fin 0.91)\<rparr>
   \<and> \<not> slot_absent (read_prop demo_zero_score ''data'') 0
   \<and> spec_score_result (read_prop demo_zero_score ''data'')
     = \<lparr>score = JNum (Fin 0), confidence = JNum (Fin 0.91)\<rparr>
   \<and> score_result (Inr (Response True (Inr demo_zero_score)))
     \<noteq> spec_score_result (read_prop demo_zero_score ''data'')"
  by (simp add: score_result_def get_prop_def nullish_def demo_zero_score_def opt_index_def
      js_or_def slot_absent_def spec_score_result_def)

text \<open>
  C4, amended. When the request fails, the response is not ok, the body does not parse
  or the body is \<open>null\<close>, the result is the fallback pair, score 4 and confidence 0.85.
  Otherwise the score is the first slot of \<open>data\<close> when that is truthy and 4 when it is
  absent or falsy, and the confidence is the second slot when that is truthy and 0.85
  when it is absent or falsy; \<open>{"data": [7.2, 0.91]}\<close> gives score 7.2 and confidence 0.91.
\<close>

theorem C4_scoring_result:
  "score_result (Inl e) = fallback_result
   \<and> score_result (Inr (Response False body)) = fallback_result
   \<and> score_result (Inr (Response True (Inl e'))) = fallback_result
   \<and> (nullish result \<longrightarrow> score_result (Inr (Response True (Inr result))) = fallback_result)
   \<and> (\<not> nullish result \<longrightarrow>
        score_result (Inr (Response True (Inr result)))
          = \<lparr>score = (if truthy (opt_index (read_prop result ''data'') 0)
                      then opt_index (read_prop result ''data'') 0 else JNum (Fin 4)),
             confidence = (if truthy (opt_index (read_prop result ''data'') 1)
                      then opt_index (read_prop result ''data'') 1 else JNum (Fin 0.85))\<rparr>)
   \<and> fallback_result = \<lparr>score = JNum (Fin 4), confidence = JNum (Fin 0.85)\<rparr>
   \<and> score_result (Inr (Response True (Inr demo_scored)))
       = \<lparr>score = JNum (Fin 7.2), confidence = JNum (Fin 0.91)\<rparr>"
proof -
  have "score_result (Inr (Response True (Inr demo_scored)))
       = \<lparr>score = JNum (Fin 7.2), confidence = JNum (Fin 0.91)\<rparr>"
    by (simp add: score_result_def get_prop_def nullish_def demo_scored_def opt_index_def
        js_or_def)
  then show ?thesis
    by (simp add: score_result_failed score_result_ok js_or_def fallback_result_def)
qed

theorem C4_scoring_result_witness:
  "\<not> nullish demo_zero_score
   \<and> nullish JNull
   \<and> score_result (Inr (Response True (Inr JNull))) = fallback_result
   \<and> score_result (Inr (Response True (Inr demo_zero_score)))
       = \<lparr>score = JNum (Fin 4), confidence = JNum (Fin 0.91)\<rparr>
   \<and> score_result (Inl FetchError) = \<lparr>score = JNum (Fin 4), confidence = JNum (Fin 0.85)\<rparr>"
proof -
  have n: "\<not> nullish demo_zero_score" "nullish JNull"
    by (simp_all add: nullish_def demo_zero_score_def)
  from C4_scoring_result [of FetchError "Inl SyntaxError" SyntaxError demo_zero_score] n(1)
  have "score_result (Inr (Response True (Inr demo_zero_score)))
       = \<lparr>score = JNum (Fin 4), confidence = JNum (Fin 0.91)\<rparr>"
    by (simp add: demo_zero_score_def opt_index_def nullish_def)
  moreover from C4_scoring_result [of FetchError "Inl SyntaxError" SyntaxError JNull] n(2)
  have "score_result (Inr (Response True (Inr JNull))) = fallback_result"
    "score_result (Inl FetchError) = \<lparr>score = JNum (Fin 4), confidence = JNum (Fin 0.85)\<rparr>"
    by simp_all
  ultimately show ?thesis using n by blast
qed

lemma js_add_numbers: "js_add H (JNum a) (JNum b) = Inr (JNum (num_add H a b))"
  by (simp add: js_add_def to_primitive_def)

lemma js_div_length_number: "js_div_length H (JNum a) n = Inr (JNum (div_length H a n))"
  by (simp add: js_div_length_def to_primitive_def)

lemma is_numberE: "is_number v \<Longrightarrow> v = JNum (number_of v)"
  by (cases v) simp_all

lemma reduce_sum_numbers:
  "\<forall>d \<in> set ds. is_number (f d) \<Longrightarrow>
   reduce_sum H f (JNum a) ds
     = Inr (JNum (foldl (num_add H) a (map (\<lambda>d. number_of (f d)) ds)))"
proof (induction ds arbitrary: a)
  case Nil
  then show ?case by simp
next
  case (Cons d ds)
  from Cons.prems have "f d = JNum (number_of (f d))"
    by (simp add: is_numberE)
  then have "js_add H (JNum a) (f d) = Inr (JNum (num_add H a (number_of (f d))))"
    by (metis js_add_numbers)
  with Cons show ?case by simp
qed

lemma average_numbers:
  assumes "\<forall>d \<in> set ds. is_number (f d)"
  shows "average H f ds = Inr (JNum (double_mean H f ds))"
  using reduce_sum_numbers [OF assms, of H "Fin 0"]
  by (simp add: average_def double_mean_def js_div_length_number)

lemma features_empty:
  "features H now [] =
     Inr [JNum (Fin 100), JNum (Fin 1.2), JNum (Fin 0.7), JNum (Fin 0.8), JNum (Fin 1.5),
          JNum (Fin 0.1), JNum (Fin 50)]"
  by (simp add: features_def useData_def average_def default_sample_def js_add_numbers
      js_div_length_number)

lemma features_fast:
  "features H now [demo_fast_entry] =
     Inr [JNum NaN, JNum (Fin 0), JNum (Fin 0), JNum (Fin 0), JNum (Fin 0), JNum (Fin 0),
          JNum (Fin 0)]"
  by (simp add: features_def useData_def average_def demo_fast_entry_def js_add_numbers
      js_div_length_number)
    (simp add: js_add_def js_div_length_def to_primitive_def string_to_number_def
      non_numeric_letters_def)

text \<open>
  C10, as claimed, fails on a buffer the hook can hold: the record normalized from
  \<open>{"cadence": "fast"}\<close> has the string \<open>"fast"\<close> as its cadence; \<open>0 + "fast"\<close> is the
  string \<open>"0fast"\<close>, which \<open>/ 1\<close> turns into NaN. The submitted cadence is NaN, on every
  host, and not the cadence of the one record divided by 1.
\<close>

theorem C10_string_cadence_counterexample:
  "gaitEntry plain_host 0 demo_malformed = Inr demo_fast_entry
   \<and> cadence demo_fast_entry = JStr ''fast''
   \<and> features plain_host 0 [demo_fast_entry] =
       Inr [JNum NaN, JNum (Fin 0), JNum (Fin 0), JNum (Fin 0), JNum (Fin 0), JNum (Fin 0),
            JNum (Fin 0)]
   \<and> JNum NaN \<noteq> cadence demo_fast_entry"
  by (simp add: demo_malformed_entry features_fast) (simp add: demo_fast_entry_def)

text \<open>
  C10, amended. For the empty buffer the submitted vector is exactly 100, 1.2, 0.7,
  0.8, 1.5, 0.1, 50: the fallback sample's cadence, walking speed, stride length,
  equilibrium score, frequency, postural sway and knee force. For a non-empty buffer
  whose seven features are numbers, a vector is submitted and each of its features is
  the mean of that feature in the arithmetic of doubles: the values added in the order
  of the buffer, starting from 0, and the sum divided by the number of records.
\<close>

theorem C10_feature_vector:
  "features H now [] =
     Inr [JNum (Fin 100), JNum (Fin 1.2), JNum (Fin 0.7), JNum (Fin 0.8), JNum (Fin 1.5),
          JNum (Fin 0.1), JNum (Fin 50)]
   \<and> (ds \<noteq> [] \<and> (\<forall>d \<in> set ds. \<forall>f \<in> set feature_fields. is_number (f d))
        \<longrightarrow> features H now ds
              = Inr (map (\<lambda>f. JNum (double_mean H f ds)) feature_fields))"
proof -
  have "features H now ds = Inr (map (\<lambda>f. JNum (double_mean H f ds)) feature_fields)"
    if ne: "ds \<noteq> []" and num: "\<forall>d \<in> set ds. \<forall>f \<in> set feature_fields. is_number (f d)"
  proof -
    have a: "average H f ds = Inr (JNum (double_mean H f ds))" if "f \<in> set feature_fields" for f
      using average_numbers [of ds f H] num that by blast
    from ne have u: "useData now ds = ds" by (simp add: useData_def)
    show ?thesis
      unfolding features_def u Let_def
      by (simp add: a feature_fields_def)
  qed
  with features_empty show ?thesis by blast
qed

theorem C10_feature_vector_witness:
  "[demo_entry, default_sample 0] \<noteq> []
   \<and> features plain_host 7 [demo_entry, default_sample 0] =
       Inr [JNum (Fin 99), JNum (Fin 0.6), JNum (Fin 0.35), JNum (Fin 0.4), JNum (Fin 0.75),
            JNum (Fin 0.05), JNum (Fin 25)]
   \<and> features plain_host 7 [] =
       Inr [JNum (Fin 100), JNum (Fin 1.2), JNum (Fin 0.7), JNum (Fin 0.8), JNum (Fin 1.5),
            JNum (Fin 0.1), JNum (Fin 50)]"
proof -
  have h: "\<forall>d \<in> set [demo_entry, default_sample 0]. \<forall>f \<in> set feature_fields.
      is_number (f d)"
    by (simp add: feature_fields_def demo_entry_def default_sample_def)
  from C10_feature_vector [of plain_host 7 "[demo_entry, default_sample 0]"] h
  have "features plain_host 7 [demo_entry, default_sample 0]
      = Inr (map (\<lambda>f. JNum (double_mean plain_host f [demo_entry, default_sample 0]))
          feature_fields)"
    and "features plain_host 7 [] =
       Inr [JNum (Fin 100), JNum (Fin 1.2), JNum (Fin 0.7), JNum (Fin 0.8), JNum (Fin 1.5),
            JNum (Fin 0.1), JNum (Fin 50)]"
    by simp_all
  then show ?thesis
    by (simp add: feature_fields_def double_mean_def demo_entry_def default_sample_def
        plain_host_def exact_add_def exact_div_def)
qed

section \<open>Historical backfill: results\<close>

text \<open>
  What the backfill installs on a success envelope: the reversed sequence is cut by
  \<open>slice(-20)\<close> to its last 20 elements, which are the first 20 records of the input.
\<close>

lemma slice_last_rev: "slice_last n (rev xs) = rev (take n xs)"
proof -
  have "length xs - (length xs - n) = min n (length xs)" by simp
  then show ?thesis
    by (simp add: slice_last_def drop_rev min_def)
qed

lemma map_entries_nth:
  "map_entries H clock i xs = Inr gs \<Longrightarrow>
   length gs = length xs
   \<and> (\<forall>j < length xs. gaitEntry H (clock (i + j)) (xs ! j) = Inr (gs ! j))"
proof (induction xs arbitrary: i gs)
  case Nil
  then show ?case by simp
next
  case (Cons x xs)
  from Cons.prems obtain g gs' where
    g: "gaitEntry H (clock i) x = Inr g" and gs': "map_entries H clock (Suc i) xs = Inr gs'"
    and gs: "gs = g # gs'"
    by (auto split: sum.splits)
  from Cons.IH [OF gs'] have l: "length gs' = length xs"
    and n: "\<forall>j < length xs. gaitEntry H (clock (Suc i + j)) (xs ! j) = Inr (gs' ! j)"
    by simp_all
  have "gaitEntry H (clock (i + j)) ((x # xs) ! j) = Inr (gs ! j)" if "j < length (x # xs)" for j
  proof (cases j)
    case 0
    with g gs show ?thesis by simp
  next
    case (Suc j')
    with that n gs show ?thesis by simp
  qed
  with l gs show ?case by simp
qed

lemma backfill_success:
  assumes "\<not> nullish result" and "truthy (read_prop result ''success'')"
    and "read_prop result ''data'' = JArr items"
    and "map_entries H clock 0 items = Inr mapped"
  shows "historicalData (historical_settled H clock now (Inr (Response True (Inr result))) w)
           = rev (take 20 mapped)"
    and "data (state (historical_settled H clock now (Inr (Response True (Inr result))) w))
           = Some (rev (take 20 mapped))"
    and "loading (state (historical_settled H clock now (Inr (Response True (Inr result))) w))
           = False"
  using assms
  by (simp_all add: historical_settled_def historical_try_def get_prop_def slice_last_rev Let_def)

lemma backfill_no_data:
  assumes "\<not> nullish result"
    and "\<not> (truthy (read_prop result ''success'') \<and> truthy (read_prop result ''data''))"
  shows "historicalData (historical_settled H clock now (Inr (Response True (Inr result))) w)
           = []"
    and "state (historical_settled H clock now (Inr (Response True (Inr result))) w)
           = (state w)\<lparr>data := Some [], loading := False\<rparr>"
  using assms
  by (auto simp: historical_settled_def historical_try_def get_prop_def Let_def)

lemma backfill_thrown:
  assumes "historical_try H clock out w = Inl e"
  shows "historicalData (historical_settled H clock now out w) = []"
    and "state (historical_settled H clock now out w)
           = (state w)\<lparr>error := Some e, loading := False, data := Some []\<rparr>"
  using assms by (simp_all add: historical_settled_def historical_catch_def)

lemma backfill_failures:
  "historical_try H clock (Inl e) w = Inl e"
  "historical_try H clock (Inr (Response True (Inl e))) w = Inl e"
  "nullish result \<Longrightarrow> historical_try H clock (Inr (Response True (Inr result))) w = Inl TypeError"
  by (simp_all add: historical_try_def get_prop_def)

lemma backfill_ok_clears_loading:
  "loading (state (historical_settled H clock now (Inr (Response True body)) w)) = False"
  "loading (state (historical_settled H clock now (Inl e) w)) = False"
  by (auto simp: historical_settled_def historical_try_def historical_catch_def Let_def
      split: sum.splits)

lemma backfill_not_ok:
  "state (historical_settled H clock now (Inr (Response False body)) w) = state w"
  "historicalData (historical_settled H clock now (Inr (Response False body)) w)
     = historicalData w"
  by (simp_all add: historical_settled_def historical_try_def)

lemma demo_item_entry:
  "i \<le> 25 \<Longrightarrow> gaitEntry plain_host 0 (demo_item i) = Inr (demo_record i)"
  by (simp add: gaitEntry_def demo_item_def demo_record_def nullish_def js_or_def
      date_time_number)

lemma demo_items_entries:
  "\<forall>i \<in> set ns. i \<le> 25 \<Longrightarrow>
   map_entries plain_host zero_clock i (map demo_item ns) = Inr (map demo_record ns)"
  by (induction ns arbitrary: i) (simp_all add: demo_item_entry)

lemma demo_stamps_entries:
  "map_entries plain_host zero_clock 0 (map demo_item demo_stamps)
     = Inr (map demo_record demo_stamps)"
  by (rule demo_items_entries) (simp add: demo_stamps_def)

text \<open>
  C1 at 25 records, oldest first and numbered 1 to 25: the buffer installed is the
  records 20 down to 1, the 20 oldest with the most recent of them first, and not the
  records 25 down to 6, the 20 most recent.
\<close>

theorem C1_backfill_25_keeps_oldest_20:
  "historicalData (historical_settled plain_host zero_clock 0
      (Inr (Response True (Inr demo_history))) (mount demo_base))
     = map demo_record
         [20, 19, 18, 17, 16, 15, 14, 13, 12, 11, 10, 9, 8, 7, 6, 5, 4, 3, 2, 1]
   \<and> historicalData (historical_settled plain_host zero_clock 0
      (Inr (Response True (Inr demo_history))) (mount demo_base))
     \<noteq> map demo_record
         [25, 24, 23, 22, 21, 20, 19, 18, 17, 16, 15, 14, 13, 12, 11, 10, 9, 8, 7, 6]"
proof -
  have "historicalData (historical_settled plain_host zero_clock 0
      (Inr (Response True (Inr demo_history))) (mount demo_base))
     = rev (take 20 (map demo_record demo_stamps))"
    by (rule backfill_success(1) [where items = "map demo_item demo_stamps"])
      (simp_all add: demo_history_def nullish_def demo_stamps_entries)
  then show ?thesis by (simp add: demo_stamps_def demo_record_def)
qed

text \<open>
  C2 at a response that is not ok: the \<open>try\<close> block is skipped and nothing is caught,
  so the composite state and the buffer stay as they were. Right after mounting, the
  loading flag is then still true and no data is published.
\<close>

theorem C2_not_ok_response_keeps_loading:
  "state (historical_settled H clock now (Inr (Response False body)) w) = state w
   \<and> historicalData (historical_settled H clock now (Inr (Response False body)) w)
       = historicalData w
   \<and> loading (state (historical_settled H clock now (Inr (Response False body))
        (mount demo_base))) = True
   \<and> data (state (historical_settled H clock now (Inr (Response False body))
        (mount demo_base))) = None"
  by (simp add: backfill_not_ok mount_demo initial_def)

end
